theory Spec2Isabelle
  imports Main
begin

section \<open>The engine's enumerations and bitmap structs\<close>

text \<open>
  The Python package \<^verbatim>\<open>openraw\<close> is a facade over the extension module
  \<^verbatim>\<open>_openraw\<close>. The enumerations below are the ones the facade imports from it
  (\<^verbatim>\<open>Type\<close>, \<^verbatim>\<open>or_error\<close>, \<^verbatim>\<open>DataType\<close>, \<^verbatim>\<open>or_options\<close>). Only the members
  that the facade, the drivers or the tests name are listed; every other member is
  folded into one constructor carrying its numeric code.
\<close>

datatype DataType =
    OR_DATA_TYPE_PIXMAP_8RGB
  | OR_DATA_TYPE_JPEG
  | OR_DATA_TYPE_TIFF
  | OR_DATA_TYPE_PNG
  | OR_DATA_TYPE_COMPRESSED_CFA
  | OR_DATA_TYPE_OTHER nat

datatype or_error =
    OR_ERROR_NONE
  | OR_ERROR_CANT_OPEN
  | OR_ERROR_OTHER nat

datatype Type =
    OR_RAWFILE_TYPE_UNKNOWN
  | OR_RAWFILE_TYPE_CR2
  | OR_RAWFILE_TYPE_OTHER nat

datatype or_options =
    OR_OPTIONS_NONE
  | OR_OPTIONS_OTHER nat

text \<open>
  Modelled from the spec: the struct behind \<^verbatim>\<open>_openraw.Bitmap\<close>, whose C++ source is
  not among the Python files. The spec lists its fields as data type, width, height,
  bits per channel, byte buffer and byte length, and for raw data also min, max and
  compression. Widths, heights, bit depths and sizes are the engine's unsigned
  integers, hence natural numbers; Python 2 byte strings are \<^typ>\<open>string\<close> (a list of
  8-bit characters).
\<close>

record bitmap =
  bitmap_dataType :: DataType
  bitmap_x :: nat
  bitmap_y :: nat
  bitmap_bpc :: nat
  bitmap_size :: nat
  bitmap_data :: string

record rawdata = bitmap +
  rawdata_min :: nat
  rawdata_max :: nat
  rawdata_compression :: nat

text \<open>
  Modelled from the spec: the constructors \<^verbatim>\<open>_openraw.Thumbnail()\<close> and
  \<^verbatim>\<open>_openraw.RawData()\<close>, which the facade calls to obtain an empty out-parameter.
\<close>

definition Thumbnail_new :: bitmap where
  "Thumbnail_new =
     \<lparr>bitmap_dataType = OR_DATA_TYPE_OTHER 0, bitmap_x = 0, bitmap_y = 0,
      bitmap_bpc = 0, bitmap_size = 0, bitmap_data = []\<rparr>"

definition RawData_new :: rawdata where
  "RawData_new =
     \<lparr>bitmap_dataType = OR_DATA_TYPE_OTHER 0, bitmap_x = 0, bitmap_y = 0,
      bitmap_bpc = 0, bitmap_size = 0, bitmap_data = [],
      rawdata_min = 0, rawdata_max = 0, rawdata_compression = 0\<rparr>"

text \<open>
  Modelled from the spec: an opened decode session, \<^verbatim>\<open>_openraw.RawFile\<close>, whose C++
  source is not among the Python files. The object is the record of what its methods
  answer. The two extraction methods take the out-parameter the caller passes and give
  back the error code together with the out-parameter as the engine left it. The spec
  makes the engine deterministic for a fixed session and fixed arguments and gives it
  no state shared with the caller, so each method is a function of its arguments.
\<close>

record handle =
  handle_type :: Type
  handle_getOrientation :: int
  handle_listThumbnailSizes :: "nat list"
  handle_getThumbnail :: "nat \<Rightarrow> bitmap \<Rightarrow> or_error \<times> bitmap"
  handle_getRawData :: "rawdata \<Rightarrow> or_options \<Rightarrow> or_error \<times> rawdata"

text \<open>The two static factory functions of \<^verbatim>\<open>_openraw.RawFile\<close>; \<open>None\<close> is Python's.\<close>

record engine =
  newRawFile :: "string \<Rightarrow> Type \<Rightarrow> handle option"
  newRawFileFromMemory :: "string \<Rightarrow> Type \<Rightarrow> handle option"

section \<open>Effects: exceptions and the trace of what the program did\<close>

text \<open>
  \<^verbatim>\<open>class Error(Exception)\<close> carries \<^verbatim>\<open>or_error_code\<close>, which defaults to \<^verbatim>\<open>None\<close>.
  \<open>IOError\<close> is what \<^verbatim>\<open>open(path, 'wb')\<close> raises when the file cannot be created.
\<close>

datatype exn =
    Error (or_error_code: "or_error option")
  | IOError string

datatype event =
    Call_newRawFile string Type
  | Call_newRawFileFromMemory string Type
  | Call_listThumbnailSizes
  | Call_getThumbnail nat
  | Call_getRawData or_options
  | File_open string
  | File_write string string
  | File_close string
  | Stderr_print string
  | Browser_open_new string
  | Browser_open_new_tab string

type_synonym 'a io = "event list \<Rightarrow> (exn + 'a) \<times> event list"

definition return :: "'a \<Rightarrow> 'a io" where
  "return v = (\<lambda>tr. (Inr v, tr))"

definition raise :: "exn \<Rightarrow> 'a io" where
  "raise e = (\<lambda>tr. (Inl e, tr))"

definition emit :: "event \<Rightarrow> unit io" where
  "emit ev = (\<lambda>tr. (Inr (), tr @ [ev]))"

definition bind :: "'a io \<Rightarrow> ('a \<Rightarrow> 'b io) \<Rightarrow> 'b io" where
  "bind m f = (\<lambda>tr. case m tr of
                      (Inl e, tr') \<Rightarrow> (Inl e, tr')
                    | (Inr v, tr') \<Rightarrow> f v tr')"

definition seq :: "unit io \<Rightarrow> 'b io \<Rightarrow> 'b io" where
  "seq m k = bind m (\<lambda>_. k)"

section \<open>The facade: \<^verbatim>\<open>openraw/__init__.py\<close>\<close>

definition DATATYPE_TO_MIMETYPE :: "DataType \<rightharpoonup> string" where
  "DATATYPE_TO_MIMETYPE =
     [OR_DATA_TYPE_JPEG \<mapsto> ''image/jpeg'',
      OR_DATA_TYPE_TIFF \<mapsto> ''image/tiff'',
      OR_DATA_TYPE_PNG \<mapsto> ''image/png'']"

text \<open>\<^verbatim>\<open>class RawFile\<close>: the private field \<^verbatim>\<open>_rawfile\<close> holds the engine's object.\<close>

datatype RawFile = RawFile (rawfile_of: handle)

text \<open>
  \<^verbatim>\<open>class Bitmap\<close> and its subclasses \<^verbatim>\<open>Thumbnail\<close> and \<^verbatim>\<open>RawData\<close>: the private
  field \<^verbatim>\<open>_bitmap\<close> holds the engine's struct. The subclasses add no behaviour, so
  one wrapper over the extensible record serves all three.
\<close>

datatype 'b Bitmap = Bitmap (bitmap_of: "'b bitmap_scheme")

type_synonym Thumbnail = "unit Bitmap"
type_synonym RawData = "unit rawdata_ext Bitmap"

definition from_path :: "engine \<Rightarrow> string \<Rightarrow> Type \<Rightarrow> RawFile io" where
  "from_path eng path raw_type_hint =
     seq (emit (Call_newRawFile path raw_type_hint))
       (case newRawFile eng path raw_type_hint of
          None \<Rightarrow> raise (Error None)
        | Some rawfile \<Rightarrow> return (RawFile rawfile))"

definition from_string :: "engine \<Rightarrow> string \<Rightarrow> Type \<Rightarrow> RawFile io" where
  "from_string eng data raw_type_hint =
     seq (emit (Call_newRawFileFromMemory data raw_type_hint))
       (case newRawFileFromMemory eng data raw_type_hint of
          None \<Rightarrow> raise (Error None)
        | Some rawfile \<Rightarrow> return (RawFile rawfile))"

definition get_type :: "RawFile \<Rightarrow> Type" where
  "get_type self = handle_type (rawfile_of self)"

definition get_orientation :: "RawFile \<Rightarrow> int" where
  "get_orientation self = handle_getOrientation (rawfile_of self)"

definition get_thumbnail_widths :: "RawFile \<Rightarrow> nat list io" where
  "get_thumbnail_widths self =
     seq (emit Call_listThumbnailSizes)
       (return (handle_listThumbnailSizes (rawfile_of self)))"

definition get_thumbnail :: "RawFile \<Rightarrow> nat \<Rightarrow> Thumbnail io" where
  "get_thumbnail self requested_width =
     seq (emit (Call_getThumbnail requested_width))
       (case handle_getThumbnail (rawfile_of self) requested_width Thumbnail_new of
          (error, thumbnail) \<Rightarrow>
            if error \<noteq> OR_ERROR_NONE then raise (Error (Some error))
            else return (Bitmap thumbnail))"

definition get_raw_data :: "RawFile \<Rightarrow> or_options \<Rightarrow> RawData io" where
  "get_raw_data self options =
     seq (emit (Call_getRawData options))
       (case handle_getRawData (rawfile_of self) RawData_new options of
          (error, rawdata) \<Rightarrow>
            if error \<noteq> OR_ERROR_NONE then raise (Error (Some error))
            else return (Bitmap rawdata))"

text \<open>The list comprehension of \<^verbatim>\<open>get_thumbnails\<close>: the first exception ends it.\<close>

fun for_list :: "('a \<Rightarrow> 'b io) \<Rightarrow> 'a list \<Rightarrow> 'b list io" where
  "for_list f [] = return []"
| "for_list f (v # vs) =
     bind (f v) (\<lambda>r. bind (for_list f vs) (\<lambda>rs. return (r # rs)))"

definition get_thumbnails :: "RawFile \<Rightarrow> Thumbnail list io" where
  "get_thumbnails self =
     bind (get_thumbnail_widths self) (for_list (get_thumbnail self))"

definition get_data_type :: "'b Bitmap \<Rightarrow> DataType" where
  "get_data_type self = bitmap_dataType (bitmap_of self)"


definition get_data :: "'b Bitmap \<Rightarrow> string" where
  "get_data self = bitmap_data (bitmap_of self)"

definition get_width :: "'b Bitmap \<Rightarrow> nat" where
  "get_width self = bitmap_x (bitmap_of self)"

definition get_height :: "'b Bitmap \<Rightarrow> nat" where
  "get_height self = bitmap_y (bitmap_of self)"

definition get_bits_per_channel :: "'b Bitmap \<Rightarrow> nat" where
  "get_bits_per_channel self = bitmap_bpc (bitmap_of self)"


section \<open>The Python runtime the drivers call\<close>

text \<open>
  What the drivers use of the standard library and of the operating system is not
  code of the repository and depends on the platform (\<^verbatim>\<open>os.path\<close>, the current
  directory, the system's MIME tables, the file system). It is a parameter:
  \<^verbatim>\<open>repr\<close> is the \<^verbatim>\<open>%r\<close> conversion of a string, \<^verbatim>\<open>str_DataType\<close> the \<^verbatim>\<open>%s\<close>
  conversion of an enumeration member, and \<^verbatim>\<open>open_wb p\<close> says whether
  \<^verbatim>\<open>open(p, 'wb')\<close> succeeds.
\<close>

record runtime =
  os_path_basename :: "string \<Rightarrow> string"
  os_path_splitext :: "string \<Rightarrow> string \<times> string"
  os_path_join :: "string \<Rightarrow> string \<Rightarrow> string"
  os_path_abspath :: "string \<Rightarrow> string"
  mimetypes_guess_extension :: "string \<Rightarrow> string option"
  repr :: "string \<Rightarrow> string"
  str_DataType :: "DataType \<Rightarrow> string"
  open_wb :: "string \<Rightarrow> bool"

text \<open>The \<^verbatim>\<open>%d\<close> conversion of a non-negative integer: its decimal digits.\<close>

definition digit_char :: "nat \<Rightarrow> char" where
  "digit_char d = ''0123456789'' ! d"

fun format_d :: "nat \<Rightarrow> string" where
  "format_d n =
     (if n < 10 then [digit_char n]
      else format_d (n div 10) @ [digit_char (n mod 10)])"

declare format_d.simps [simp del]

text \<open>Reading a decimal numeral back, to state that \<^verbatim>\<open>%d\<close> loses nothing.\<close>

definition digit_value :: "char \<Rightarrow> nat" where
  "digit_value c = of_char c - 48"

definition parse_d :: "string \<Rightarrow> nat" where
  "parse_d s = foldl (\<lambda>a c. 10 * a + digit_value c) 0 s"

text \<open>
  The \<^verbatim>\<open>%s\<close> conversion of a value that is a string or \<^verbatim>\<open>None\<close>, as the variable
  \<^verbatim>\<open>extension\<close> of the thumbnail driver is.
\<close>

definition format_s :: "string option \<Rightarrow> string" where
  "format_s v = (case v of None \<Rightarrow> ''None'' | Some s \<Rightarrow> s)"

text \<open>
  \<^verbatim>\<open>f = open(path, 'wb')\<close> raises when the file cannot be created. Writing to a file
  that was opened, closing it, printing on the standard error stream and calling the
  browser are taken to succeed.
\<close>

definition open_file :: "runtime \<Rightarrow> string \<Rightarrow> unit io" where
  "open_file rt path =
     (if open_wb rt path then emit (File_open path) else raise (IOError path))"

section \<open>The raw-data driver: \<^verbatim>\<open>demo/cfa.py\<close>\<close>

definition extract_raw_image ::
  "runtime \<Rightarrow> engine \<Rightarrow> string \<Rightarrow> string \<Rightarrow> bool \<Rightarrow> unit io" where
  "extract_raw_image rt eng rawfile_path destination_path open_in_browser =
     bind (from_path eng rawfile_path OR_RAWFILE_TYPE_UNKNOWN) (\<lambda>raw_file.
     bind (get_raw_data raw_file OR_OPTIONS_NONE) (\<lambda>raw_data.
       let extract_base_name =
             fst (os_path_splitext rt (os_path_basename rt rawfile_path));
           image_path =
             os_path_abspath rt
               (os_path_join rt destination_path (extract_base_name @ ''.pgm''))
       in
       seq (open_file rt image_path)
      (seq (emit (File_write image_path ''P5\<newline>''))
      (seq (emit (File_write image_path
              (format_d (get_width raw_data) @ '' '' @
               format_d (get_height raw_data) @ ''\<newline>'')))
      (let colors_per_channel = 2 ^ get_bits_per_channel raw_data - 1 in
       seq (emit (File_write image_path (format_d colors_per_channel @ ''\<newline>'')))
      (seq (emit (File_write image_path (get_data raw_data)))
      (seq (emit (File_close image_path))
      (if open_in_browser then emit (Browser_open_new image_path)
       else return ()))))))))"

section \<open>The thumbnail driver: \<^verbatim>\<open>demo/thumb.py\<close>\<close>

text \<open>The stream is a \<^verbatim>\<open>cStringIO\<close> buffer: each write appends to it.\<close>

definition write_rgb8pixmap_to_stream :: "'b Bitmap \<Rightarrow> string \<Rightarrow> string" where
  "write_rgb8pixmap_to_stream bitmap stream =
     (((stream @ ''P6\<newline>'')
        @ (format_d (get_width bitmap) @ '' '' @
           format_d (get_height bitmap) @ ''\<newline>''))
        @ ''255\<newline>'')
        @ get_data bitmap"

text \<open>
  The text that \<^verbatim>\<open>print >> sys.stderr\<close> writes for a thumbnail of an unmapped type:
  the formatted message and the newline that \<^verbatim>\<open>print\<close> adds.
\<close>

definition cannot_extract_message ::
  "runtime \<Rightarrow> string \<Rightarrow> 'b Bitmap \<Rightarrow> string" where
  "cannot_extract_message rt rawfile_path thumbnail =
     ''Cannot extract thumbnail of type '' @ [CHR 0x22] @
     str_DataType rt (get_data_type thumbnail) @ [CHR 0x22] @ '' from '' @
     repr rt rawfile_path @ '' ('' @
     format_d (get_width thumbnail) @ ''x'' @
     format_d (get_height thumbnail) @ '') '' @ ''\<newline>''"

text \<open>
  The end of the loop body, which both branches that did not \<^verbatim>\<open>continue\<close> reach:
  name the file, write it, and open it in the browser when asked.
\<close>

definition write_thumbnail_file ::
  "runtime \<Rightarrow> string \<Rightarrow> string \<Rightarrow> bool \<Rightarrow> 'b Bitmap \<Rightarrow>
   string option \<Rightarrow> string \<Rightarrow> unit io" where
  "write_thumbnail_file rt thumbnail_base_name destination_path open_in_browser
       thumbnail extension data =
     (let thumbnail_name =
            thumbnail_base_name @ ''-'' @
            format_d (get_width thumbnail) @ ''x'' @
            format_d (get_height thumbnail) @
            format_s extension;
          thumbnail_path =
            os_path_abspath rt (os_path_join rt destination_path thumbnail_name)
      in
      seq (open_file rt thumbnail_path)
     (seq (emit (File_write thumbnail_path data))
     (seq (emit (File_close thumbnail_path))
     (if open_in_browser then emit (Browser_open_new_tab thumbnail_path)
      else return ()))))"

text \<open>One iteration of \<^verbatim>\<open>for thumbnail in raw_file.get_thumbnails()\<close>.\<close>

definition extract_thumbnail_body ::
  "runtime \<Rightarrow> string \<Rightarrow> string \<Rightarrow> string \<Rightarrow> bool \<Rightarrow> 'b Bitmap \<Rightarrow> unit io" where
  "extract_thumbnail_body rt rawfile_path thumbnail_base_name destination_path
       open_in_browser thumbnail =
     (if get_data_type thumbnail = OR_DATA_TYPE_PIXMAP_8RGB then
        let stream = write_rgb8pixmap_to_stream thumbnail [];
            extension = Some ''.ppm'';
            data = stream
        in write_thumbnail_file rt thumbnail_base_name destination_path
             open_in_browser thumbnail extension data
      else
        case DATATYPE_TO_MIMETYPE (get_data_type thumbnail) of
          None \<Rightarrow>
            emit (Stderr_print (cannot_extract_message rt rawfile_path thumbnail))
        | Some mime_type \<Rightarrow>
            let extension = mimetypes_guess_extension rt mime_type;
                data = get_data thumbnail
            in write_thumbnail_file rt thumbnail_base_name destination_path
                 open_in_browser thumbnail extension data)"

fun for_each :: "('a \<Rightarrow> unit io) \<Rightarrow> 'a list \<Rightarrow> unit io" where
  "for_each body [] = return ()"
| "for_each body (v # vs) = seq (body v) (for_each body vs)"

definition extract_thumbnails ::
  "runtime \<Rightarrow> engine \<Rightarrow> string \<Rightarrow> string \<Rightarrow> bool \<Rightarrow> unit io" where
  "extract_thumbnails rt eng rawfile_path destination_path open_in_browser =
     bind (from_path eng rawfile_path OR_RAWFILE_TYPE_UNKNOWN) (\<lambda>raw_file.
       let thumbnail_base_name =
             fst (os_path_splitext rt (os_path_basename rt rawfile_path))
       in
       bind (get_thumbnails raw_file)
         (for_each (extract_thumbnail_body rt rawfile_path thumbnail_base_name
                      destination_path open_in_browser)))"

text \<open>
  What the file system holds after a trace: \<^verbatim>\<open>open(p, 'wb')\<close> creates or truncates
  the file, each write appends to it.
\<close>

fun file_step :: "(string \<rightharpoonup> string) \<Rightarrow> event \<Rightarrow> (string \<rightharpoonup> string)" where
  "file_step fs (File_open p) = fs(p \<mapsto> [])"
| "file_step fs (File_write p s) =
     (case fs p of None \<Rightarrow> fs | Some old \<Rightarrow> fs(p \<mapsto> old @ s))"
| "file_step fs _ = fs"

definition files_after :: "(string \<rightharpoonup> string) \<Rightarrow> event list \<Rightarrow> (string \<rightharpoonup> string)" where
  "files_after fs tr = foldl file_step fs tr"


section \<open>Notions for stating what the drivers do\<close>

text \<open>
  The thumbnail that \<^verbatim>\<open>get_thumbnail\<close> returns for a width the engine accepts, and the
  events that one iteration of the thumbnail driver's loop appends to the trace.
\<close>

definition thumbnail_of :: "handle \<Rightarrow> nat \<Rightarrow> Thumbnail" where
  "thumbnail_of h w = Bitmap (snd (handle_getThumbnail h w Thumbnail_new))"

definition iteration_events ::
  "runtime \<Rightarrow> string \<Rightarrow> string \<Rightarrow> bool \<Rightarrow> Thumbnail \<Rightarrow> event list" where
  "iteration_events rt rawfile_path destination_path open_in_browser thumbnail =
     snd (extract_thumbnail_body rt rawfile_path
            (fst (os_path_splitext rt (os_path_basename rt rawfile_path)))
            destination_path open_in_browser thumbnail [])"

text \<open>The events of a trace that touch files.\<close>

fun is_file_event :: "event \<Rightarrow> bool" where
  "is_file_event (File_open p) = True"
| "is_file_event (File_write p s) = True"
| "is_file_event (File_close p) = True"
| "is_file_event _ = False"

text \<open>What a trace printed on the standard error stream, and the files it opened.\<close>

fun stderr_text :: "event \<Rightarrow> string list" where
  "stderr_text (Stderr_print s) = [s]"
| "stderr_text _ = []"

definition stderr_of :: "event list \<Rightarrow> string list" where
  "stderr_of tr = concat (map stderr_text tr)"

fun opened_path :: "event \<Rightarrow> string list" where
  "opened_path (File_open p) = [p]"
| "opened_path _ = []"

definition files_opened :: "event list \<Rightarrow> string list" where
  "files_opened tr = concat (map opened_path tr)"

section \<open>The engine's mutators\<close>

text \<open>
  Modelled from the spec: the setters of \<^verbatim>\<open>_openraw.Bitmap\<close> and \<^verbatim>\<open>_openraw.RawData\<close>,
  which the facade does not wrap and whose C++ source is not among the Python files;
  \<^verbatim>\<open>tests/_openraw_test.py\<close> exercises them. Setting the data stores the buffer and
  its length; the spec says that changing dimensions or bit depth does not resize
  the buffer and that min, max and compression are informational.
\<close>

definition setDataType :: "DataType \<Rightarrow> 'b bitmap_scheme \<Rightarrow> 'b bitmap_scheme" where
  "setDataType t b = b\<lparr>bitmap_dataType := t\<rparr>"

definition setData :: "string \<Rightarrow> 'b bitmap_scheme \<Rightarrow> 'b bitmap_scheme" where
  "setData d b = b\<lparr>bitmap_data := d, bitmap_size := length d\<rparr>"

definition setDimensions :: "nat \<Rightarrow> nat \<Rightarrow> 'b bitmap_scheme \<Rightarrow> 'b bitmap_scheme" where
  "setDimensions w h b = b\<lparr>bitmap_x := w, bitmap_y := h\<rparr>"

definition setBpc :: "nat \<Rightarrow> 'b bitmap_scheme \<Rightarrow> 'b bitmap_scheme" where
  "setBpc n b = b\<lparr>bitmap_bpc := n\<rparr>"

definition setMin :: "nat \<Rightarrow> 'b rawdata_scheme \<Rightarrow> 'b rawdata_scheme" where
  "setMin v r = r\<lparr>rawdata_min := v\<rparr>"

definition setMax :: "nat \<Rightarrow> 'b rawdata_scheme \<Rightarrow> 'b rawdata_scheme" where
  "setMax v r = r\<lparr>rawdata_max := v\<rparr>"

definition setCompression :: "nat \<Rightarrow> 'b rawdata_scheme \<Rightarrow> 'b rawdata_scheme" where
  "setCompression v r = r\<lparr>rawdata_compression := v\<rparr>"






section \<open>A sample environment\<close>

text \<open>
  A small synthetic raw file and a POSIX-like runtime, on which the theorems below are
  exercised. The file \<^verbatim>\<open>images/sample.cr2\<close> reports four thumbnail widths, one of them
  twice: a JPEG of 160 by 120, a packed RGB pixmap of 2 by 2, and a thumbnail of a type
  without MIME mapping of 4 by 3. Its raw data is 2 by 2 samples of 14 bits, and the
  reported \<open>max\<close> differs from the largest 14-bit value on purpose.
\<close>

definition sample_getThumbnail :: "nat \<Rightarrow> bitmap \<Rightarrow> or_error \<times> bitmap" where
  "sample_getThumbnail w out =
     (if w = 160 then
        (OR_ERROR_NONE,
         setData [CHR 0xFF, CHR 0xD8, CHR 0xFF, CHR 0xD9]
           (setBpc 8 (setDimensions 160 120 (setDataType OR_DATA_TYPE_JPEG out))))
      else if w = 2 then
        (OR_ERROR_NONE,
         setData ''rgbRGBrgbRGB''
           (setBpc 8 (setDimensions 2 2 (setDataType OR_DATA_TYPE_PIXMAP_8RGB out))))
      else if w = 4 then
        (OR_ERROR_NONE,
         setData ''cfa''
           (setBpc 8 (setDimensions 4 3 (setDataType OR_DATA_TYPE_COMPRESSED_CFA out))))
      else (OR_ERROR_OTHER 6, out))"

definition sample_getRawData :: "rawdata \<Rightarrow> or_options \<Rightarrow> or_error \<times> rawdata" where
  "sample_getRawData out opts =
     (if opts = OR_OPTIONS_NONE then
        (OR_ERROR_NONE,
         setCompression 0 (setMax 4000 (setMin 0
           (setData ''AaBbCcDd''
             (setBpc 14 (setDimensions 2 2 (setDataType (OR_DATA_TYPE_OTHER 5) out)))))))
      else (OR_ERROR_OTHER 3, out))"

definition sample_handle :: handle where
  "sample_handle =
     \<lparr>handle_type = OR_RAWFILE_TYPE_CR2,
      handle_getOrientation = 1,
      handle_listThumbnailSizes = [160, 2, 4, 160],
      handle_getThumbnail = sample_getThumbnail,
      handle_getRawData = sample_getRawData\<rparr>"

definition sample_open :: "string \<Rightarrow> Type \<Rightarrow> handle option" where
  "sample_open path raw_type_hint =
     (if path = ''images/sample.cr2'' then Some sample_handle else None)"

definition sample_open_memory :: "string \<Rightarrow> Type \<Rightarrow> handle option" where
  "sample_open_memory data raw_type_hint =
     (if data = ''II*sample'' then Some sample_handle else None)"

definition sample_engine :: engine where
  "sample_engine =
     \<lparr>newRawFile = sample_open, newRawFileFromMemory = sample_open_memory\<rparr>"

definition sample_basename :: "string \<Rightarrow> string" where
  "sample_basename p = rev (takeWhile (\<lambda>c. c \<noteq> CHR ''/'') (rev p))"

definition sample_splitext :: "string \<Rightarrow> string \<times> string" where
  "sample_splitext p =
     (let name = sample_basename p;
          ext = rev (takeWhile (\<lambda>c. c \<noteq> CHR ''.'') (rev name));
          stem = take (length name - length ext - 1) name
      in if CHR ''.'' \<notin> set name \<or> (\<forall>c \<in> set stem. c = CHR ''.'') then (p, [])
         else (take (length p - length ext - 1) p, CHR ''.'' # ext))"

definition sample_join :: "string \<Rightarrow> string \<Rightarrow> string" where
  "sample_join a b =
     (if b \<noteq> [] \<and> hd b = CHR ''/'' then b
      else if a = [] \<or> last a = CHR ''/'' then a @ b
      else a @ ''/'' @ b)"

definition sample_abspath :: "string \<Rightarrow> string" where
  "sample_abspath p =
     (if p \<noteq> [] \<and> hd p = CHR ''/'' then p else sample_join ''/home/user'' p)"

definition sample_guess_extension :: "string \<Rightarrow> string option" where
  "sample_guess_extension mime_type =
     (if mime_type = ''image/jpeg'' then Some ''.jpg''
      else if mime_type = ''image/tiff'' then Some ''.tiff''
      else if mime_type = ''image/png'' then Some ''.png''
      else None)"

definition sample_str_DataType :: "DataType \<Rightarrow> string" where
  "sample_str_DataType t =
     (case t of
        OR_DATA_TYPE_PIXMAP_8RGB \<Rightarrow> ''OR_DATA_TYPE_PIXMAP_8RGB''
      | OR_DATA_TYPE_JPEG \<Rightarrow> ''OR_DATA_TYPE_JPEG''
      | OR_DATA_TYPE_TIFF \<Rightarrow> ''OR_DATA_TYPE_TIFF''
      | OR_DATA_TYPE_PNG \<Rightarrow> ''OR_DATA_TYPE_PNG''
      | OR_DATA_TYPE_COMPRESSED_CFA \<Rightarrow> ''OR_DATA_TYPE_COMPRESSED_CFA''
      | OR_DATA_TYPE_OTHER n \<Rightarrow> format_d n)"

definition sample_runtime :: runtime where
  "sample_runtime =
     \<lparr>os_path_basename = sample_basename,
      os_path_splitext = sample_splitext,
      os_path_join = sample_join,
      os_path_abspath = sample_abspath,
      mimetypes_guess_extension = sample_guess_extension,
      repr = (\<lambda>s. [CHR 0x27] @ s @ [CHR 0x27]),
      str_DataType = sample_str_DataType,
      open_wb = (\<lambda>p. True)\<rparr>"

text \<open>The same runtime on a system whose MIME tables know no extension at all.\<close>

definition bare_runtime :: runtime where
  "bare_runtime = sample_runtime\<lparr>mimetypes_guess_extension := (\<lambda>m. None)\<rparr>"




section \<open>Running the facade\<close>

lemma seq_emit: "seq (emit ev) k tr = k (tr @ [ev])"
  by (simp add: seq_def bind_def emit_def)

lemma from_path_run:
  "from_path eng path hint tr =
     (case newRawFile eng path hint of
        None \<Rightarrow> (Inl (Error None), tr @ [Call_newRawFile path hint])
      | Some h \<Rightarrow> (Inr (RawFile h), tr @ [Call_newRawFile path hint]))"
  by (simp add: from_path_def seq_emit raise_def return_def split: option.split)

lemma from_string_run:
  "from_string eng data hint tr =
     (case newRawFileFromMemory eng data hint of
        None \<Rightarrow> (Inl (Error None), tr @ [Call_newRawFileFromMemory data hint])
      | Some h \<Rightarrow> (Inr (RawFile h), tr @ [Call_newRawFileFromMemory data hint]))"
  by (simp add: from_string_def seq_emit raise_def return_def split: option.split)

lemma get_thumbnail_run:
  "get_thumbnail self w tr =
     (if fst (handle_getThumbnail (rawfile_of self) w Thumbnail_new) \<noteq> OR_ERROR_NONE
      then Inl (Error (Some (fst (handle_getThumbnail (rawfile_of self) w Thumbnail_new))))
      else Inr (Bitmap (snd (handle_getThumbnail (rawfile_of self) w Thumbnail_new))),
      tr @ [Call_getThumbnail w])"
  by (simp add: get_thumbnail_def seq_emit raise_def return_def split: prod.split)

lemma get_raw_data_run:
  "get_raw_data self opts tr =
     (if fst (handle_getRawData (rawfile_of self) RawData_new opts) \<noteq> OR_ERROR_NONE
      then Inl (Error (Some (fst (handle_getRawData (rawfile_of self) RawData_new opts))))
      else Inr (Bitmap (snd (handle_getRawData (rawfile_of self) RawData_new opts))),
      tr @ [Call_getRawData opts])"
  by (simp add: get_raw_data_def seq_emit raise_def return_def split: prod.split)

lemmas sample_defs =
  sample_engine_def sample_open_def sample_open_memory_def sample_handle_def
  sample_getThumbnail_def sample_getRawData_def Thumbnail_new_def RawData_new_def
  setDataType_def setData_def setDimensions_def setBpc_def setMin_def setMax_def
  setCompression_def

section \<open>Opening a raw file\<close>

text \<open>
  Claim C5. The factory operations \<^verbatim>\<open>from_path\<close> (open from a path) and
  \<^verbatim>\<open>from_string\<close> (open from memory) raise exactly when the engine returns no
  handle, and what they raise is \<^verbatim>\<open>Error()\<close>, the error without an engine code; when
  the engine returns a handle they return the \<^verbatim>\<open>RawFile\<close> that wraps this handle.
  A returned value is always a \<^verbatim>\<open>RawFile\<close> around a handle: the type has no null.
\<close>

theorem open_raises_iff_no_handle:
  "((\<exists>e. fst (from_path eng path hint tr) = Inl e) = (newRawFile eng path hint = None))
   \<and> (newRawFile eng path hint = None \<longrightarrow>
         fst (from_path eng path hint tr) = Inl (Error None))
   \<and> (\<forall>h. newRawFile eng path hint = Some h \<longrightarrow>
         fst (from_path eng path hint tr) = Inr (RawFile h))
   \<and> ((\<exists>e. fst (from_string eng data hint tr) = Inl e)
         = (newRawFileFromMemory eng data hint = None))
   \<and> (newRawFileFromMemory eng data hint = None \<longrightarrow>
         fst (from_string eng data hint tr) = Inl (Error None))
   \<and> (\<forall>h. newRawFileFromMemory eng data hint = Some h \<longrightarrow>
         fst (from_string eng data hint tr) = Inr (RawFile h))"
  by (simp add: from_path_run from_string_run split: option.split)

theorem open_raises_iff_no_handle_witness:
  "newRawFile sample_engine ''images/sample.cr2'' OR_RAWFILE_TYPE_UNKNOWN = Some sample_handle
   \<and> fst (from_path sample_engine ''images/sample.cr2'' OR_RAWFILE_TYPE_UNKNOWN [])
       = Inr (RawFile sample_handle)
   \<and> newRawFileFromMemory sample_engine ''not a raw file'' OR_RAWFILE_TYPE_UNKNOWN = None
   \<and> fst (from_string sample_engine ''not a raw file'' OR_RAWFILE_TYPE_UNKNOWN [])
       = Inl (Error None)"
  using open_raises_iff_no_handle
    [of sample_engine "''images/sample.cr2''" OR_RAWFILE_TYPE_UNKNOWN "[]" "''not a raw file''"]
  by (simp add: sample_engine_def sample_open_def sample_open_memory_def)

section \<open>Extraction and the engine's error code\<close>

text \<open>
  Claim C4. Let the engine answer a thumbnail request with the code \<open>code\<close> and a raw
  data request with the code \<open>code'\<close>. Then \<^verbatim>\<open>get_thumbnail\<close> raises if and only if
  \<open>code\<close> is not \<^verbatim>\<open>OR_ERROR_NONE\<close>, and what it raises is the error carrying exactly
  \<open>code\<close>; when \<open>code\<close> is \<^verbatim>\<open>OR_ERROR_NONE\<close> it returns the bitmap wrapping the
  engine's output. The same holds of \<^verbatim>\<open>get_raw_data\<close> and \<open>code'\<close>.
\<close>

theorem extraction_raises_iff_engine_error:
  "handle_getThumbnail (rawfile_of self) w Thumbnail_new = (code, thumbnail) \<Longrightarrow>
   handle_getRawData (rawfile_of self) RawData_new opts = (code', rawdata) \<Longrightarrow>
     ((\<exists>e. fst (get_thumbnail self w tr) = Inl e) = (code \<noteq> OR_ERROR_NONE))
   \<and> (code \<noteq> OR_ERROR_NONE \<longrightarrow> fst (get_thumbnail self w tr) = Inl (Error (Some code)))
   \<and> (code = OR_ERROR_NONE \<longrightarrow> fst (get_thumbnail self w tr) = Inr (Bitmap thumbnail))
   \<and> ((\<exists>e. fst (get_raw_data self opts tr) = Inl e) = (code' \<noteq> OR_ERROR_NONE))
   \<and> (code' \<noteq> OR_ERROR_NONE \<longrightarrow>
         fst (get_raw_data self opts tr) = Inl (Error (Some code')))
   \<and> (code' = OR_ERROR_NONE \<longrightarrow> fst (get_raw_data self opts tr) = Inr (Bitmap rawdata))"
  by (simp add: get_thumbnail_run get_raw_data_run)

theorem extraction_raises_iff_engine_error_witness:
  "handle_getThumbnail (rawfile_of (RawFile sample_handle)) 7 Thumbnail_new
     = (OR_ERROR_OTHER 6, Thumbnail_new)
   \<and> handle_getRawData (rawfile_of (RawFile sample_handle)) RawData_new OR_OPTIONS_NONE
     = (OR_ERROR_NONE, snd (sample_getRawData RawData_new OR_OPTIONS_NONE))
   \<and> fst (get_thumbnail (RawFile sample_handle) 7 []) = Inl (Error (Some (OR_ERROR_OTHER 6)))
   \<and> fst (get_raw_data (RawFile sample_handle) OR_OPTIONS_NONE [])
     = Inr (Bitmap (snd (sample_getRawData RawData_new OR_OPTIONS_NONE)))"
proof -
  have t: "handle_getThumbnail (rawfile_of (RawFile sample_handle)) 7 Thumbnail_new
             = (OR_ERROR_OTHER 6, Thumbnail_new)"
    by (simp add: sample_handle_def sample_getThumbnail_def)
  have r: "handle_getRawData (rawfile_of (RawFile sample_handle)) RawData_new OR_OPTIONS_NONE
             = (OR_ERROR_NONE, snd (sample_getRawData RawData_new OR_OPTIONS_NONE))"
    by (simp add: sample_handle_def sample_getRawData_def)
  from extraction_raises_iff_engine_error [OF t r, of "[]"] t r show ?thesis
    by simp
qed

section \<open>Enumerating the thumbnails\<close>

lemma for_list_get_thumbnail_ok:
  "\<forall>w \<in> set ws. fst (handle_getThumbnail (rawfile_of self) w Thumbnail_new) = OR_ERROR_NONE \<Longrightarrow>
   for_list (get_thumbnail self) ws tr =
     (Inr (map (\<lambda>w. Bitmap (snd (handle_getThumbnail (rawfile_of self) w Thumbnail_new))) ws),
      tr @ map Call_getThumbnail ws)"
proof (induction ws arbitrary: tr)
  case Nil
  then show ?case by (simp add: return_def)
next
  case (Cons w ws)
  then show ?case
    by (simp add: bind_def get_thumbnail_run return_def)
qed

lemma for_list_get_thumbnail_Inr:
  "for_list (get_thumbnail self) ws tr = (Inr ts, tr') \<Longrightarrow>
   \<forall>w \<in> set ws. fst (handle_getThumbnail (rawfile_of self) w Thumbnail_new) = OR_ERROR_NONE"
proof (induction ws arbitrary: tr ts tr')
  case Nil
  then show ?case by simp
next
  case (Cons w ws)
  then show ?case
    by (auto simp: bind_def get_thumbnail_run return_def
             split: prod.splits sum.splits if_splits)
qed

text \<open>The first width the engine refuses ends the enumeration with its error.\<close>

lemma for_list_get_thumbnail_fail:
  "\<forall>w \<in> set us. fst (handle_getThumbnail (rawfile_of self) w Thumbnail_new) = OR_ERROR_NONE \<Longrightarrow>
   fst (handle_getThumbnail (rawfile_of self) v Thumbnail_new) \<noteq> OR_ERROR_NONE \<Longrightarrow>
   for_list (get_thumbnail self) (us @ v # vs) tr =
     (Inl (Error (Some (fst (handle_getThumbnail (rawfile_of self) v Thumbnail_new)))),
      tr @ map Call_getThumbnail (us @ [v]))"
proof (induction us arbitrary: tr)
  case Nil
  then show ?case
    by (simp add: bind_def get_thumbnail_run)
next
  case (Cons u us)
  then show ?case
    by (simp add: bind_def get_thumbnail_run)
qed

lemma get_thumbnails_run:
  "get_thumbnails self tr =
     for_list (get_thumbnail self) (handle_listThumbnailSizes (rawfile_of self))
       (tr @ [Call_listThumbnailSizes])"
  by (simp add: get_thumbnails_def get_thumbnail_widths_def seq_emit bind_def return_def)

text \<open>
  Claim C7. \<^verbatim>\<open>get_thumbnails\<close> returns a list whenever the selector succeeds on every
  reported width. Whenever it returns a list, that list is as long as the list of
  widths, its \<open>i\<close>-th element is what the selector returns for the \<open>i\<close>-th width, and
  the calls it made to the engine are one query of the widths followed by exactly one
  selector call per element of the width list, in the engine's order, duplicates
  included.
\<close>

theorem get_thumbnails_one_call_per_width:
  "((\<forall>w \<in> set (handle_listThumbnailSizes (rawfile_of self)).
        \<exists>b. fst (get_thumbnail self w tr0) = Inr b)
      \<longrightarrow> (\<exists>ts. fst (get_thumbnails self tr) = Inr ts))
   \<and> (get_thumbnails self tr = (Inr ts, tr') \<longrightarrow>
        length ts = length (handle_listThumbnailSizes (rawfile_of self))
      \<and> (\<forall>i < length (handle_listThumbnailSizes (rawfile_of self)).
            fst (get_thumbnail self (handle_listThumbnailSizes (rawfile_of self) ! i) tr0)
              = Inr (ts ! i))
      \<and> tr' = tr @ Call_listThumbnailSizes #
                 map Call_getThumbnail (handle_listThumbnailSizes (rawfile_of self)))"
proof -
  let ?ws = "handle_listThumbnailSizes (rawfile_of self)"
  let ?g = "\<lambda>w. handle_getThumbnail (rawfile_of self) w Thumbnail_new"
  have ok_iff: "(\<exists>b. fst (get_thumbnail self w tr0) = Inr b) = (fst (?g w) = OR_ERROR_NONE)"
    for w
    by (simp add: get_thumbnail_run)
  have A: "\<exists>ts. fst (get_thumbnails self tr) = Inr ts"
    if "\<forall>w \<in> set ?ws. \<exists>b. fst (get_thumbnail self w tr0) = Inr b"
  proof -
    from that have "\<forall>w \<in> set ?ws. fst (?g w) = OR_ERROR_NONE"
      by (simp add: ok_iff)
    then show ?thesis
      by (simp add: get_thumbnails_run for_list_get_thumbnail_ok)
  qed
  have B: "length ts = length ?ws
      \<and> (\<forall>i < length ?ws. fst (get_thumbnail self (?ws ! i) tr0) = Inr (ts ! i))
      \<and> tr' = tr @ Call_listThumbnailSizes # map Call_getThumbnail ?ws"
    if run: "get_thumbnails self tr = (Inr ts, tr')"
  proof -
    from run have fl:
      "for_list (get_thumbnail self) ?ws (tr @ [Call_listThumbnailSizes]) = (Inr ts, tr')"
      by (simp add: get_thumbnails_run)
    then have ok: "\<forall>w \<in> set ?ws. fst (?g w) = OR_ERROR_NONE"
      by (rule for_list_get_thumbnail_Inr)
    from for_list_get_thumbnail_ok [OF ok, of "tr @ [Call_listThumbnailSizes]"] fl
    have ts: "ts = map (\<lambda>w. Bitmap (snd (?g w))) ?ws"
      and tr': "tr' = tr @ Call_listThumbnailSizes # map Call_getThumbnail ?ws"
      by simp_all
    have "fst (get_thumbnail self (?ws ! i) tr0) = Inr (ts ! i)" if "i < length ?ws" for i
    proof -
      from that ok have "fst (?g (?ws ! i)) = OR_ERROR_NONE" by simp
      with that show ?thesis
        by (simp add: ts get_thumbnail_run)
    qed
    with ts tr' show ?thesis by simp
  qed
  from A B show ?thesis by blast
qed

theorem get_thumbnails_one_call_per_width_witness:
  "handle_listThumbnailSizes (rawfile_of (RawFile sample_handle)) = [160, 2, 4, 160]
   \<and> (\<exists>b. fst (get_thumbnail (RawFile sample_handle) 160 []) = Inr b)
   \<and> (\<exists>b. fst (get_thumbnail (RawFile sample_handle) 2 []) = Inr b)
   \<and> (\<exists>b. fst (get_thumbnail (RawFile sample_handle) 4 []) = Inr b)
   \<and> (\<exists>ts. get_thumbnails (RawFile sample_handle) []
          = (Inr ts,
             [Call_listThumbnailSizes, Call_getThumbnail 160, Call_getThumbnail 2,
              Call_getThumbnail 4, Call_getThumbnail 160])
        \<and> length ts = 4
        \<and> fst (get_thumbnail (RawFile sample_handle) 160 []) = Inr (ts ! 0)
        \<and> fst (get_thumbnail (RawFile sample_handle) 160 []) = Inr (ts ! 3))"
proof -
  let ?S = "RawFile sample_handle"
  have ws: "handle_listThumbnailSizes (rawfile_of ?S) = [160, 2, 4, 160]"
    by (simp add: sample_handle_def)
  have ws': "handle_listThumbnailSizes sample_handle = [160, 2, 4, 160]"
    by (simp add: sample_handle_def)
  have ok: "\<forall>w \<in> set (handle_listThumbnailSizes (rawfile_of ?S)).
              \<exists>b. fst (get_thumbnail ?S w []) = Inr b"
    by (simp add: ws get_thumbnail_run sample_handle_def sample_getThumbnail_def)
  from get_thumbnails_one_call_per_width [of ?S "[]" "[]"] ok
  obtain ts where ts: "fst (get_thumbnails ?S []) = Inr ts"
    by blast
  then have run: "get_thumbnails ?S [] = (Inr ts, snd (get_thumbnails ?S []))"
    by (metis prod.collapse)
  from get_thumbnails_one_call_per_width [of ?S "[]" "[]" ts "snd (get_thumbnails ?S [])"] run
  have len: "length ts = 4"
    and elems: "\<forall>i < 4. fst (get_thumbnail ?S ([160, 2, 4, 160] ! i) []) = Inr (ts ! i)"
    and calls: "snd (get_thumbnails ?S []) =
           [Call_listThumbnailSizes, Call_getThumbnail 160, Call_getThumbnail 2,
            Call_getThumbnail 4, Call_getThumbnail 160]"
    by (simp_all add: ws')
  from elems [rule_format, of 0] have e0: "fst (get_thumbnail ?S 160 []) = Inr (ts ! 0)"
    by simp
  from elems [rule_format, of 3] have e3: "fst (get_thumbnail ?S 160 []) = Inr (ts ! 3)"
    by simp
  from run calls len e0 e3
  have "\<exists>ts. get_thumbnails ?S []
          = (Inr ts,
             [Call_listThumbnailSizes, Call_getThumbnail 160, Call_getThumbnail 2,
              Call_getThumbnail 4, Call_getThumbnail 160])
        \<and> length ts = 4
        \<and> fst (get_thumbnail ?S 160 []) = Inr (ts ! 0)
        \<and> fst (get_thumbnail ?S 160 []) = Inr (ts ! 3)"
    by (intro exI [of _ ts]) simp
  moreover from ok have "(\<exists>b. fst (get_thumbnail ?S 160 []) = Inr b)
      \<and> (\<exists>b. fst (get_thumbnail ?S 2 []) = Inr b)
      \<and> (\<exists>b. fst (get_thumbnail ?S 4 []) = Inr b)"
    by (simp add: ws')
  ultimately show ?thesis
    using ws by blast
qed


section \<open>The raw-data driver writes a PGM file\<close>

lemma open_file_run:
  "open_file rt p tr = (if open_wb rt p then (Inr (), tr @ [File_open p]) else (Inl (IOError p), tr))"
  by (simp add: open_file_def emit_def raise_def)

lemma seq_open_file:
  "seq (open_file rt p) k tr = (if open_wb rt p then k (tr @ [File_open p]) else (Inl (IOError p), tr))"
  by (simp add: seq_def bind_def open_file_run)

lemma emit_run: "emit ev tr = (Inr (), tr @ [ev])"
  by (simp add: emit_def)

lemma return_run: "return v tr = (Inr v, tr)"
  by (simp add: return_def)

lemma files_after_append:
  "files_after fs (tr @ es) = files_after (files_after fs tr) es"
  by (simp add: files_after_def)

lemma files_after_Cons: "files_after fs (ev # es) = files_after (file_step fs ev) es"
  by (simp add: files_after_def)

lemma files_after_Nil: "files_after fs [] = fs"
  by (simp add: files_after_def)

lemma extract_raw_image_run:
  assumes "newRawFile eng rawfile_path OR_RAWFILE_TYPE_UNKNOWN = Some h"
    and "handle_getRawData h RawData_new OR_OPTIONS_NONE = (OR_ERROR_NONE, rd)"
    and "image_path =
           os_path_abspath rt (os_path_join rt destination_path
             (fst (os_path_splitext rt (os_path_basename rt rawfile_path)) @ ''.pgm''))"
    and "open_wb rt image_path"
  shows "extract_raw_image rt eng rawfile_path destination_path open_in_browser tr =
     (Inr (),
      tr @ [Call_newRawFile rawfile_path OR_RAWFILE_TYPE_UNKNOWN,
            Call_getRawData OR_OPTIONS_NONE,
            File_open image_path,
            File_write image_path ''P5\<newline>'',
            File_write image_path
              (format_d (bitmap_x rd) @ '' '' @ format_d (bitmap_y rd) @ ''\<newline>''),
            File_write image_path (format_d (2 ^ bitmap_bpc rd - 1) @ ''\<newline>''),
            File_write image_path (bitmap_data rd),
            File_close image_path]
         @ (if open_in_browser then [Browser_open_new image_path] else []))"
  using assms
  by (simp add: extract_raw_image_def bind_def from_path_run get_raw_data_run Let_def
        seq_open_file seq_emit emit_run return_run get_width_def get_height_def
        get_bits_per_channel_def get_data_def)

text \<open>
  Claim C1. When the raw file opens, the engine extracts its raw data with width \<open>w\<close>,
  height \<open>ht\<close>, \<open>b\<close> bits per channel and byte buffer \<open>d\<close>, and the output file can
  be created, \<^verbatim>\<open>extract_raw_image\<close> ends normally and the file at the absolute form
  of destination joined with the base name without extension plus \<^verbatim>\<open>.pgm\<close> holds
  exactly \<^verbatim>\<open>P5\<close>, newline, \<open>w\<close>, space, \<open>ht\<close>, newline, the decimal of
  \<open>2 ^ b - 1\<close>, newline, and then \<open>d\<close>; these are the only file events of the
  run. The reported \<open>max\<close> (\<open>mx\<close>), like the reported size, does not occur in what
  is written.
\<close>

theorem extract_raw_image_writes_pgm:
  assumes "newRawFile eng rawfile_path OR_RAWFILE_TYPE_UNKNOWN = Some h"
    and "handle_getRawData h RawData_new OR_OPTIONS_NONE =
           (OR_ERROR_NONE,
            \<lparr>bitmap_dataType = t, bitmap_x = w, bitmap_y = ht, bitmap_bpc = b,
             bitmap_size = n, bitmap_data = d,
             rawdata_min = mn, rawdata_max = mx, rawdata_compression = c\<rparr>)"
    and "image_path =
           os_path_abspath rt (os_path_join rt destination_path
             (fst (os_path_splitext rt (os_path_basename rt rawfile_path)) @ ''.pgm''))"
    and "open_wb rt image_path"
  shows "fst (extract_raw_image rt eng rawfile_path destination_path open_in_browser tr)
           = Inr ()
       \<and> files_after fs
           (snd (extract_raw_image rt eng rawfile_path destination_path open_in_browser tr))
           image_path
           = Some (''P5\<newline>'' @ format_d w @ '' '' @ format_d ht @ ''\<newline>'' @
                   format_d (2 ^ b - 1) @ ''\<newline>'' @ d)
       \<and> filter is_file_event
           (drop (length tr)
             (snd (extract_raw_image rt eng rawfile_path destination_path open_in_browser tr)))
           = [File_open image_path,
              File_write image_path ''P5\<newline>'',
              File_write image_path (format_d w @ '' '' @ format_d ht @ ''\<newline>''),
              File_write image_path (format_d (2 ^ b - 1) @ ''\<newline>''),
              File_write image_path d,
              File_close image_path]"
  by (simp add: extract_raw_image_run [OF assms] files_after_append
        files_after_Cons files_after_Nil)

theorem extract_raw_image_writes_pgm_witness:
  "newRawFile sample_engine ''images/sample.cr2'' OR_RAWFILE_TYPE_UNKNOWN = Some sample_handle
   \<and> handle_getRawData sample_handle RawData_new OR_OPTIONS_NONE =
        (OR_ERROR_NONE,
         \<lparr>bitmap_dataType = OR_DATA_TYPE_OTHER 5, bitmap_x = 2, bitmap_y = 2,
          bitmap_bpc = 14, bitmap_size = 8, bitmap_data = ''AaBbCcDd'',
          rawdata_min = 0, rawdata_max = 4000, rawdata_compression = 0\<rparr>)
   \<and> os_path_abspath sample_runtime (os_path_join sample_runtime ''out''
         (fst (os_path_splitext sample_runtime
                 (os_path_basename sample_runtime ''images/sample.cr2'')) @ ''.pgm''))
       = ''/home/user/out/sample.pgm''
   \<and> open_wb sample_runtime ''/home/user/out/sample.pgm''
   \<and> fst (extract_raw_image sample_runtime sample_engine ''images/sample.cr2'' ''out'' False [])
       = Inr ()
   \<and> files_after Map.empty
        (snd (extract_raw_image sample_runtime sample_engine ''images/sample.cr2'' ''out''
                False []))
        ''/home/user/out/sample.pgm''
       = Some ''P5\<newline>2 2\<newline>16383\<newline>AaBbCcDd''"
proof -
  have opened: "newRawFile sample_engine ''images/sample.cr2'' OR_RAWFILE_TYPE_UNKNOWN
                  = Some sample_handle"
    by (simp add: sample_engine_def sample_open_def)
  have raw: "handle_getRawData sample_handle RawData_new OR_OPTIONS_NONE =
        (OR_ERROR_NONE,
         \<lparr>bitmap_dataType = OR_DATA_TYPE_OTHER 5, bitmap_x = 2, bitmap_y = 2,
          bitmap_bpc = 14, bitmap_size = 8, bitmap_data = ''AaBbCcDd'',
          rawdata_min = 0, rawdata_max = 4000, rawdata_compression = 0\<rparr>)"
    by (simp add: sample_defs)
  have path: "''/home/user/out/sample.pgm'' =
      os_path_abspath sample_runtime (os_path_join sample_runtime ''out''
         (fst (os_path_splitext sample_runtime
                 (os_path_basename sample_runtime ''images/sample.cr2'')) @ ''.pgm''))"
    by (simp add: sample_runtime_def sample_abspath_def sample_join_def sample_splitext_def
          sample_basename_def Let_def)
  have perm: "open_wb sample_runtime ''/home/user/out/sample.pgm''"
    by (simp add: sample_runtime_def)
  have digits: "format_d 2 = ''2''" "format_d (2 ^ 14 - 1) = ''16383''"
    by (simp_all add: format_d.simps digit_char_def)
  from extract_raw_image_writes_pgm
    [OF opened raw path perm, where fs = Map.empty and open_in_browser = False and tr = "[]"]
    opened raw path [symmetric] perm digits
  show ?thesis
    by simp
qed


section \<open>Running the thumbnail driver\<close>

lemma write_thumbnail_file_run:
  "write_thumbnail_file rt base dest browser t ext data tr =
     (let p = os_path_abspath rt (os_path_join rt dest
                (base @ ''-'' @ format_d (get_width t) @ ''x'' @ format_d (get_height t) @
                 format_s ext))
      in if open_wb rt p
         then (Inr (), tr @ [File_open p, File_write p data, File_close p]
                          @ (if browser then [Browser_open_new_tab p] else []))
         else (Inl (IOError p), tr))"
  by (simp add: write_thumbnail_file_def Let_def seq_open_file seq_emit emit_run return_run)

lemma extract_thumbnail_body_trace:
  "extract_thumbnail_body rt path base dest browser t tr =
     (fst (extract_thumbnail_body rt path base dest browser t []),
      tr @ snd (extract_thumbnail_body rt path base dest browser t []))"
  by (simp add: extract_thumbnail_body_def write_thumbnail_file_run Let_def emit_run
           split: option.split)

lemma extract_thumbnail_body_ok:
  "\<forall>p. open_wb rt p \<Longrightarrow> fst (extract_thumbnail_body rt path base dest browser t []) = Inr ()"
  by (simp add: extract_thumbnail_body_def write_thumbnail_file_run Let_def emit_run
           split: option.split)

lemma for_each_run:
  assumes "\<And>t tr. body t tr = (Inr (), tr @ ev t)"
  shows "for_each body ts tr = (Inr (), tr @ concat (map ev ts))"
proof (induction ts arbitrary: tr)
  case Nil
  show ?case by (simp add: return_run)
next
  case (Cons t ts)
  then show ?case
    by (simp add: seq_def bind_def assms)
qed

lemma extract_thumbnails_run:
  assumes opened: "newRawFile eng rawfile_path OR_RAWFILE_TYPE_UNKNOWN = Some h"
    and extracted: "\<forall>w \<in> set (handle_listThumbnailSizes h).
                      fst (handle_getThumbnail h w Thumbnail_new) = OR_ERROR_NONE"
    and writable: "\<forall>p. open_wb rt p"
  shows "extract_thumbnails rt eng rawfile_path destination_path open_in_browser tr =
     (Inr (),
      tr @ Call_newRawFile rawfile_path OR_RAWFILE_TYPE_UNKNOWN # Call_listThumbnailSizes #
           map Call_getThumbnail (handle_listThumbnailSizes h)
         @ concat (map (\<lambda>w. iteration_events rt rawfile_path destination_path open_in_browser
                               (thumbnail_of h w))
                       (handle_listThumbnailSizes h)))"
proof -
  let ?base = "fst (os_path_splitext rt (os_path_basename rt rawfile_path))"
  let ?body = "extract_thumbnail_body rt rawfile_path ?base destination_path open_in_browser"
  let ?ev = "iteration_events rt rawfile_path destination_path open_in_browser"
  have body: "?body t tr = (Inr (), tr @ ?ev t)" for t tr
    using extract_thumbnail_body_trace [of rt rawfile_path ?base destination_path open_in_browser t tr]
      extract_thumbnail_body_ok [OF writable, of rawfile_path ?base destination_path open_in_browser t]
    by (simp add: iteration_events_def)
  have loop: "for_each ?body ts tr = (Inr (), tr @ concat (map ?ev ts))" for ts tr
    by (rule for_each_run) (rule body)
  from extracted have ex: "\<forall>w \<in> set (handle_listThumbnailSizes (rawfile_of (RawFile h))).
      fst (handle_getThumbnail (rawfile_of (RawFile h)) w Thumbnail_new) = OR_ERROR_NONE"
    by simp
  show ?thesis
    by (simp add: extract_thumbnails_def bind_def from_path_run opened Let_def
          get_thumbnails_run for_list_get_thumbnail_ok [OF ex, simplified] loop
          thumbnail_of_def comp_def)
qed

lemma iteration_events_rgb:
  assumes "get_data_type t = OR_DATA_TYPE_PIXMAP_8RGB"
    and "p = os_path_abspath rt (os_path_join rt dest
               (fst (os_path_splitext rt (os_path_basename rt path)) @ ''-'' @
                format_d (get_width t) @ ''x'' @ format_d (get_height t) @ ''.ppm''))"
    and "open_wb rt p"
  shows "iteration_events rt path dest browser t =
      [File_open p,
       File_write p (''P6\<newline>'' @ format_d (get_width t) @ '' '' @
                     format_d (get_height t) @ ''\<newline>'' @ ''255\<newline>'' @ get_data t),
       File_close p] @ (if browser then [Browser_open_new_tab p] else [])"
  using assms
  by (simp add: iteration_events_def extract_thumbnail_body_def write_thumbnail_file_run
        Let_def write_rgb8pixmap_to_stream_def format_s_def)

lemma iteration_events_mime:
  assumes "get_data_type t \<noteq> OR_DATA_TYPE_PIXMAP_8RGB"
    and "DATATYPE_TO_MIMETYPE (get_data_type t) = Some mime_type"
    and "p = os_path_abspath rt (os_path_join rt dest
               (fst (os_path_splitext rt (os_path_basename rt path)) @ ''-'' @
                format_d (get_width t) @ ''x'' @ format_d (get_height t) @
                format_s (mimetypes_guess_extension rt mime_type)))"
    and "open_wb rt p"
  shows "iteration_events rt path dest browser t =
      [File_open p, File_write p (get_data t), File_close p]
      @ (if browser then [Browser_open_new_tab p] else [])"
  using assms
  by (simp add: iteration_events_def extract_thumbnail_body_def write_thumbnail_file_run
        Let_def)

lemma iteration_events_unmapped:
  assumes "get_data_type t \<noteq> OR_DATA_TYPE_PIXMAP_8RGB"
    and "DATATYPE_TO_MIMETYPE (get_data_type t) = None"
  shows "iteration_events rt path dest browser t =
      [Stderr_print (cannot_extract_message rt path t)]"
  using assms
  by (simp add: iteration_events_def extract_thumbnail_body_def emit_run)

section \<open>The sample environment, evaluated\<close>

lemmas sample_runtime_defs =
  sample_runtime_def bare_runtime_def sample_abspath_def sample_join_def
  sample_splitext_def sample_basename_def sample_guess_extension_def
  sample_str_DataType_def

lemmas driver_defs =
  iteration_events_def thumbnail_of_def extract_thumbnail_body_def
  write_thumbnail_file_run write_rgb8pixmap_to_stream_def cannot_extract_message_def
  emit_run DATATYPE_TO_MIMETYPE_def format_s_def get_data_type_def get_width_def
  get_height_def get_data_def

lemma sample_widths: "handle_listThumbnailSizes sample_handle = [160, 2, 4, 160]"
  by (simp add: sample_handle_def)

lemma sample_extracted:
  "\<forall>w \<in> set (handle_listThumbnailSizes sample_handle).
     fst (handle_getThumbnail sample_handle w Thumbnail_new) = OR_ERROR_NONE"
  by (simp add: sample_handle_def sample_getThumbnail_def)

lemma sample_opened:
  "newRawFile sample_engine ''images/sample.cr2'' OR_RAWFILE_TYPE_UNKNOWN = Some sample_handle"
  by (simp add: sample_engine_def sample_open_def)

lemma sample_thumbnail_160:
  "handle_getThumbnail sample_handle 160 Thumbnail_new =
     (OR_ERROR_NONE,
      \<lparr>bitmap_dataType = OR_DATA_TYPE_JPEG, bitmap_x = 160, bitmap_y = 120, bitmap_bpc = 8,
       bitmap_size = 4, bitmap_data = [CHR 0xFF, CHR 0xD8, CHR 0xFF, CHR 0xD9]\<rparr>)"
  by (simp add: sample_defs)

lemma sample_thumbnail_2:
  "handle_getThumbnail sample_handle 2 Thumbnail_new =
     (OR_ERROR_NONE,
      \<lparr>bitmap_dataType = OR_DATA_TYPE_PIXMAP_8RGB, bitmap_x = 2, bitmap_y = 2, bitmap_bpc = 8,
       bitmap_size = 12, bitmap_data = ''rgbRGBrgbRGB''\<rparr>)"
  by (simp add: sample_defs)

lemma sample_thumbnail_4:
  "handle_getThumbnail sample_handle 4 Thumbnail_new =
     (OR_ERROR_NONE,
      \<lparr>bitmap_dataType = OR_DATA_TYPE_COMPRESSED_CFA, bitmap_x = 4, bitmap_y = 3,
       bitmap_bpc = 8, bitmap_size = 3, bitmap_data = ''cfa''\<rparr>)"
  by (simp add: sample_defs)

lemma sample_digits:
  "format_d 2 = ''2''" "format_d 3 = ''3''" "format_d 4 = ''4''"
  "format_d 120 = ''120''" "format_d 160 = ''160''"
  by code_simp+

lemma sample_base:
  "fst (os_path_splitext sample_runtime (os_path_basename sample_runtime ''images/sample.cr2''))
     = ''sample''"
  "fst (os_path_splitext bare_runtime (os_path_basename bare_runtime ''images/sample.cr2''))
     = ''sample''"
  by (simp_all add: sample_runtime_defs Let_def)

lemma sample_out:
  "os_path_abspath sample_runtime (os_path_join sample_runtime ''out'' (CHR ''s'' # name))
     = ''/home/user/out/'' @ CHR ''s'' # name"
  "os_path_abspath bare_runtime (os_path_join bare_runtime ''out'' (CHR ''s'' # name))
     = ''/home/user/out/'' @ CHR ''s'' # name"
  by (simp_all add: sample_runtime_defs)

lemma sample_texts:
  "str_DataType sample_runtime OR_DATA_TYPE_COMPRESSED_CFA = ''OR_DATA_TYPE_COMPRESSED_CFA''"
  "str_DataType bare_runtime OR_DATA_TYPE_COMPRESSED_CFA = ''OR_DATA_TYPE_COMPRESSED_CFA''"
  "repr sample_runtime s = [CHR 0x27] @ s @ [CHR 0x27]"
  "repr bare_runtime s = [CHR 0x27] @ s @ [CHR 0x27]"
  "open_wb sample_runtime q"
  "open_wb bare_runtime q"
  "mimetypes_guess_extension sample_runtime ''image/jpeg'' = Some ''.jpg''"
  "mimetypes_guess_extension bare_runtime m = None"
  by (simp_all add: sample_runtime_defs)

lemma sample_events_160:
  "iteration_events sample_runtime ''images/sample.cr2'' ''out'' False
     (thumbnail_of sample_handle 160) =
     [File_open ''/home/user/out/sample-160x120.jpg'',
      File_write ''/home/user/out/sample-160x120.jpg'' [CHR 0xFF, CHR 0xD8, CHR 0xFF, CHR 0xD9],
      File_close ''/home/user/out/sample-160x120.jpg'']"
  by (simp add: driver_defs sample_thumbnail_160 sample_base sample_out sample_texts
        sample_digits Let_def)

lemma sample_events_2:
  "iteration_events sample_runtime ''images/sample.cr2'' ''out'' False
     (thumbnail_of sample_handle 2) =
     [File_open ''/home/user/out/sample-2x2.ppm'',
      File_write ''/home/user/out/sample-2x2.ppm'' ''P6\<newline>2 2\<newline>255\<newline>rgbRGBrgbRGB'',
      File_close ''/home/user/out/sample-2x2.ppm'']"
  by (simp add: driver_defs sample_thumbnail_2 sample_base sample_out sample_texts
        sample_digits Let_def)

lemma sample_events_4:
  "iteration_events sample_runtime ''images/sample.cr2'' ''out'' False
     (thumbnail_of sample_handle 4) =
     [Stderr_print (''Cannot extract thumbnail of type '' @ [CHR 0x22] @
        ''OR_DATA_TYPE_COMPRESSED_CFA'' @ [CHR 0x22] @ '' from '' @ [CHR 0x27] @
        ''images/sample.cr2'' @ [CHR 0x27] @ '' (4x3) '' @ ''\<newline>'')]"
  by (simp add: driver_defs sample_thumbnail_4 sample_base sample_out sample_texts
        sample_digits Let_def)

lemma bare_events_160:
  "iteration_events bare_runtime ''images/sample.cr2'' ''out'' False
     (thumbnail_of sample_handle 160) =
     [File_open ''/home/user/out/sample-160x120None'',
      File_write ''/home/user/out/sample-160x120None'' [CHR 0xFF, CHR 0xD8, CHR 0xFF, CHR 0xD9],
      File_close ''/home/user/out/sample-160x120None'']"
  by (simp add: driver_defs sample_thumbnail_160 sample_base sample_out sample_texts
        sample_digits Let_def)

lemma sample_writable: "\<forall>q. open_wb sample_runtime q"
  by (simp add: sample_texts)

lemma bare_writable: "\<forall>q. open_wb bare_runtime q"
  by (simp add: sample_texts)

lemma sample_split_2: "handle_listThumbnailSizes sample_handle = [160] @ 2 # [4, 160]"
  by (simp add: sample_widths)

lemma sample_split_160: "handle_listThumbnailSizes sample_handle = [] @ 160 # [2, 4, 160]"
  by (simp add: sample_widths)

lemma sample_split_4: "handle_listThumbnailSizes sample_handle = [160, 2] @ 4 # [160]"
  by (simp add: sample_widths)

lemma bare_events_2:
  "iteration_events bare_runtime ''images/sample.cr2'' ''out'' False
     (thumbnail_of sample_handle 2) =
     [File_open ''/home/user/out/sample-2x2.ppm'',
      File_write ''/home/user/out/sample-2x2.ppm'' ''P6\<newline>2 2\<newline>255\<newline>rgbRGBrgbRGB'',
      File_close ''/home/user/out/sample-2x2.ppm'']"
  by (simp add: driver_defs sample_thumbnail_2 sample_base sample_out sample_texts
        sample_digits Let_def)

lemma bare_events_4:
  "iteration_events bare_runtime ''images/sample.cr2'' ''out'' False
     (thumbnail_of sample_handle 4) =
     [Stderr_print (''Cannot extract thumbnail of type '' @ [CHR 0x22] @
        ''OR_DATA_TYPE_COMPRESSED_CFA'' @ [CHR 0x22] @ '' from '' @ [CHR 0x27] @
        ''images/sample.cr2'' @ [CHR 0x27] @ '' (4x3) '' @ ''\<newline>'')]"
  by (simp add: driver_defs sample_thumbnail_4 sample_base sample_out sample_texts
        sample_digits Let_def)

lemmas files_after_simps = files_after_append files_after_Cons files_after_Nil

section \<open>What the thumbnail driver writes\<close>

text \<open>
  Claim C2. Let the raw file open, every reported width be extracted, and every output
  file be creatable. For a thumbnail of type packed 8-bit RGB with width \<open>x\<close>, height
  \<open>y\<close> and byte buffer \<open>d\<close>, \<^verbatim>\<open>extract_thumbnails\<close> writes, at this thumbnail's place
  in the run, one file whose name is the base name, a hyphen, \<open>x\<close>, the letter x, \<open>y\<close>
  and \<^verbatim>\<open>.ppm\<close>, and whose content is exactly \<^verbatim>\<open>P6\<close>, newline, \<open>x\<close>, space, \<open>y\<close>,
  newline, \<^verbatim>\<open>255\<close>, newline, and then \<open>d\<close> unchanged.
\<close>

theorem rgb_thumbnail_written_as_ppm:
  assumes opened: "newRawFile eng rawfile_path OR_RAWFILE_TYPE_UNKNOWN = Some h"
    and extracted: "\<forall>v \<in> set (handle_listThumbnailSizes h).
                      fst (handle_getThumbnail h v Thumbnail_new) = OR_ERROR_NONE"
    and writable: "\<forall>q. open_wb rt q"
    and widths: "handle_listThumbnailSizes h = ws1 @ w # ws2"
    and thumbnail: "handle_getThumbnail h w Thumbnail_new =
           (OR_ERROR_NONE,
            \<lparr>bitmap_dataType = OR_DATA_TYPE_PIXMAP_8RGB, bitmap_x = x, bitmap_y = y,
             bitmap_bpc = b, bitmap_size = n, bitmap_data = d\<rparr>)"
    and name: "thumbnail_name =
           fst (os_path_splitext rt (os_path_basename rt rawfile_path)) @ ''-'' @
           format_d x @ ''x'' @ format_d y @ ''.ppm''"
    and path: "p = os_path_abspath rt (os_path_join rt destination_path thumbnail_name)"
  shows "extract_thumbnails rt eng rawfile_path destination_path open_in_browser tr =
     (Inr (),
      tr @ Call_newRawFile rawfile_path OR_RAWFILE_TYPE_UNKNOWN # Call_listThumbnailSizes #
           map Call_getThumbnail (ws1 @ w # ws2)
         @ concat (map (\<lambda>v. iteration_events rt rawfile_path destination_path open_in_browser
                               (thumbnail_of h v)) ws1)
         @ [File_open p,
            File_write p (''P6\<newline>'' @ format_d x @ '' '' @ format_d y @ ''\<newline>'' @
                          ''255\<newline>'' @ d),
            File_close p]
         @ (if open_in_browser then [Browser_open_new_tab p] else [])
         @ concat (map (\<lambda>v. iteration_events rt rawfile_path destination_path open_in_browser
                               (thumbnail_of h v)) ws2))"
proof -
  have "iteration_events rt rawfile_path destination_path open_in_browser (thumbnail_of h w) =
      [File_open p,
       File_write p (''P6\<newline>'' @ format_d x @ '' '' @ format_d y @ ''\<newline>'' @
                     ''255\<newline>'' @ d),
       File_close p] @ (if open_in_browser then [Browser_open_new_tab p] else [])"
    using writable
    by (subst iteration_events_rgb [where p = p])
       (simp_all add: thumbnail_of_def thumbnail name path get_data_type_def get_width_def
          get_height_def get_data_def)
  then show ?thesis
    by (simp add: extract_thumbnails_run [OF opened extracted writable] widths)
qed

theorem rgb_thumbnail_written_as_ppm_witness:
  "newRawFile sample_engine ''images/sample.cr2'' OR_RAWFILE_TYPE_UNKNOWN = Some sample_handle
   \<and> handle_listThumbnailSizes sample_handle = [160] @ 2 # [4, 160]
   \<and> fst (handle_getThumbnail sample_handle 160 Thumbnail_new) = OR_ERROR_NONE
   \<and> fst (handle_getThumbnail sample_handle 4 Thumbnail_new) = OR_ERROR_NONE
   \<and> handle_getThumbnail sample_handle 2 Thumbnail_new =
        (OR_ERROR_NONE,
         \<lparr>bitmap_dataType = OR_DATA_TYPE_PIXMAP_8RGB, bitmap_x = 2, bitmap_y = 2,
          bitmap_bpc = 8, bitmap_size = 12, bitmap_data = ''rgbRGBrgbRGB''\<rparr>)
   \<and> (\<forall>q. open_wb sample_runtime q)
   \<and> fst (extract_thumbnails sample_runtime sample_engine ''images/sample.cr2'' ''out''
             False []) = Inr ()
   \<and> files_after Map.empty
        (snd (extract_thumbnails sample_runtime sample_engine ''images/sample.cr2'' ''out''
                False []))
        ''/home/user/out/sample-2x2.ppm''
       = Some ''P6\<newline>2 2\<newline>255\<newline>rgbRGBrgbRGB''"
proof -
  note run = rgb_thumbnail_written_as_ppm
    [OF sample_opened sample_extracted sample_writable sample_split_2 sample_thumbnail_2
        refl refl,
     where destination_path = "''out''" and open_in_browser = False and tr = "[]"]
  have "fst (extract_thumbnails sample_runtime sample_engine ''images/sample.cr2'' ''out''
               False []) = Inr ()"
    by (simp add: run)
  moreover have "files_after Map.empty
        (snd (extract_thumbnails sample_runtime sample_engine ''images/sample.cr2'' ''out''
                False []))
        ''/home/user/out/sample-2x2.ppm''
       = Some ''P6\<newline>2 2\<newline>255\<newline>rgbRGBrgbRGB''"
    by (simp add: run sample_events_160 sample_events_4 sample_base sample_out
          sample_digits files_after_simps)
  ultimately show ?thesis
    using sample_opened sample_split_2 sample_thumbnail_2 sample_thumbnail_160
      sample_thumbnail_4 sample_writable
    by simp
qed



text \<open>
  Claim C10. Under the same conditions, for a thumbnail whose data type has a MIME
  mapping in \<^verbatim>\<open>DATATYPE_TO_MIMETYPE\<close> while the system's lookup gives no extension for
  that MIME type, the iteration prints nothing on the standard error stream and does
  not skip the thumbnail: it writes the byte buffer to a file whose name ends with the
  four characters \<^verbatim>\<open>None\<close>.
\<close>

theorem missing_extension_names_file_None:
  assumes opened: "newRawFile eng rawfile_path OR_RAWFILE_TYPE_UNKNOWN = Some h"
    and extracted: "\<forall>v \<in> set (handle_listThumbnailSizes h).
                      fst (handle_getThumbnail h v Thumbnail_new) = OR_ERROR_NONE"
    and writable: "\<forall>q. open_wb rt q"
    and widths: "handle_listThumbnailSizes h = ws1 @ w # ws2"
    and thumbnail: "handle_getThumbnail h w Thumbnail_new =
           (OR_ERROR_NONE,
            \<lparr>bitmap_dataType = t, bitmap_x = x, bitmap_y = y,
             bitmap_bpc = b, bitmap_size = n, bitmap_data = d\<rparr>)"
    and mapped: "DATATYPE_TO_MIMETYPE t = Some mime_type"
    and no_extension: "mimetypes_guess_extension rt mime_type = None"
    and name: "thumbnail_name =
           fst (os_path_splitext rt (os_path_basename rt rawfile_path)) @ ''-'' @
           format_d x @ ''x'' @ format_d y @ ''None''"
    and path: "p = os_path_abspath rt (os_path_join rt destination_path thumbnail_name)"
  shows "iteration_events rt rawfile_path destination_path open_in_browser (thumbnail_of h w) =
           [File_open p, File_write p d, File_close p]
           @ (if open_in_browser then [Browser_open_new_tab p] else [])
       \<and> stderr_of (iteration_events rt rawfile_path destination_path open_in_browser
                      (thumbnail_of h w)) = []
       \<and> extract_thumbnails rt eng rawfile_path destination_path open_in_browser tr =
     (Inr (),
      tr @ Call_newRawFile rawfile_path OR_RAWFILE_TYPE_UNKNOWN # Call_listThumbnailSizes #
           map Call_getThumbnail (ws1 @ w # ws2)
         @ concat (map (\<lambda>v. iteration_events rt rawfile_path destination_path open_in_browser
                               (thumbnail_of h v)) ws1)
         @ [File_open p, File_write p d, File_close p]
         @ (if open_in_browser then [Browser_open_new_tab p] else [])
         @ concat (map (\<lambda>v. iteration_events rt rawfile_path destination_path open_in_browser
                               (thumbnail_of h v)) ws2))"
proof -
  from mapped have not_rgb: "t \<noteq> OR_DATA_TYPE_PIXMAP_8RGB"
    by (auto simp: DATATYPE_TO_MIMETYPE_def)
  have ev: "iteration_events rt rawfile_path destination_path open_in_browser (thumbnail_of h w) =
      [File_open p, File_write p d, File_close p]
      @ (if open_in_browser then [Browser_open_new_tab p] else [])"
    using writable
    by (subst iteration_events_mime [where p = p and mime_type = mime_type])
       (simp_all add: thumbnail_of_def thumbnail name path get_data_type_def get_width_def
          get_height_def get_data_def mapped not_rgb no_extension format_s_def)
  then show ?thesis
    by (simp add: extract_thumbnails_run [OF opened extracted writable] widths stderr_of_def)
qed

theorem missing_extension_names_file_None_witness:
  "newRawFile sample_engine ''images/sample.cr2'' OR_RAWFILE_TYPE_UNKNOWN = Some sample_handle
   \<and> handle_listThumbnailSizes sample_handle = [] @ 160 # [2, 4, 160]
   \<and> fst (handle_getThumbnail sample_handle 2 Thumbnail_new) = OR_ERROR_NONE
   \<and> fst (handle_getThumbnail sample_handle 4 Thumbnail_new) = OR_ERROR_NONE
   \<and> handle_getThumbnail sample_handle 160 Thumbnail_new =
        (OR_ERROR_NONE,
         \<lparr>bitmap_dataType = OR_DATA_TYPE_JPEG, bitmap_x = 160, bitmap_y = 120,
          bitmap_bpc = 8, bitmap_size = 4,
          bitmap_data = [CHR 0xFF, CHR 0xD8, CHR 0xFF, CHR 0xD9]\<rparr>)
   \<and> (\<forall>q. open_wb bare_runtime q)
   \<and> DATATYPE_TO_MIMETYPE OR_DATA_TYPE_JPEG = Some ''image/jpeg''
   \<and> mimetypes_guess_extension bare_runtime ''image/jpeg'' = None
   \<and> iteration_events bare_runtime ''images/sample.cr2'' ''out'' False
        (thumbnail_of sample_handle 160) =
        [File_open ''/home/user/out/sample-160x120None'',
         File_write ''/home/user/out/sample-160x120None''
           [CHR 0xFF, CHR 0xD8, CHR 0xFF, CHR 0xD9],
         File_close ''/home/user/out/sample-160x120None'']
   \<and> stderr_of (iteration_events bare_runtime ''images/sample.cr2'' ''out'' False
        (thumbnail_of sample_handle 160)) = []
   \<and> files_opened
        (snd (extract_thumbnails bare_runtime sample_engine ''images/sample.cr2'' ''out''
                False []))
       = [''/home/user/out/sample-160x120None'', ''/home/user/out/sample-2x2.ppm'',
          ''/home/user/out/sample-160x120None'']"
proof -
  have mapped: "DATATYPE_TO_MIMETYPE OR_DATA_TYPE_JPEG = Some ''image/jpeg''"
    by (simp add: DATATYPE_TO_MIMETYPE_def)
  have ext: "mimetypes_guess_extension bare_runtime ''image/jpeg'' = None"
    by (simp add: sample_texts)
  note run = missing_extension_names_file_None
    [OF sample_opened sample_extracted bare_writable sample_split_160 sample_thumbnail_160
        mapped ext refl refl,
     where destination_path = "''out''" and open_in_browser = False and tr = "[]"]
  from run have "iteration_events bare_runtime ''images/sample.cr2'' ''out'' False
        (thumbnail_of sample_handle 160) =
        [File_open ''/home/user/out/sample-160x120None'',
         File_write ''/home/user/out/sample-160x120None''
           [CHR 0xFF, CHR 0xD8, CHR 0xFF, CHR 0xD9],
         File_close ''/home/user/out/sample-160x120None'']"
    and "stderr_of (iteration_events bare_runtime ''images/sample.cr2'' ''out'' False
        (thumbnail_of sample_handle 160)) = []"
    by (simp_all add: sample_base sample_out sample_digits stderr_of_def)
  moreover from run have "files_opened
        (snd (extract_thumbnails bare_runtime sample_engine ''images/sample.cr2'' ''out''
                False []))
       = [''/home/user/out/sample-160x120None'', ''/home/user/out/sample-2x2.ppm'',
          ''/home/user/out/sample-160x120None'']"
    by (simp add: sample_base sample_out sample_digits bare_events_160 bare_events_2
          bare_events_4 files_opened_def)
  ultimately show ?thesis
    using sample_opened sample_split_160 sample_thumbnail_2 sample_thumbnail_160
      sample_thumbnail_4 bare_writable mapped ext
    by simp
qed

text \<open>
  Claim C3. Under the same conditions, for a thumbnail whose data type is neither
  packed 8-bit RGB nor a key of \<^verbatim>\<open>DATATYPE_TO_MIMETYPE\<close>, the whole of what the driver
  does at this thumbnail's place in the run is to print one diagnostic, which names
  the encoding, the file and the dimensions; no file is opened or written for it, and
  the thumbnails before and after it are processed as they would be otherwise.
\<close>

theorem unmapped_thumbnail_skipped_with_diagnostic:
  assumes opened: "newRawFile eng rawfile_path OR_RAWFILE_TYPE_UNKNOWN = Some h"
    and extracted: "\<forall>v \<in> set (handle_listThumbnailSizes h).
                      fst (handle_getThumbnail h v Thumbnail_new) = OR_ERROR_NONE"
    and writable: "\<forall>q. open_wb rt q"
    and widths: "handle_listThumbnailSizes h = ws1 @ w # ws2"
    and thumbnail: "handle_getThumbnail h w Thumbnail_new =
           (OR_ERROR_NONE,
            \<lparr>bitmap_dataType = t, bitmap_x = x, bitmap_y = y,
             bitmap_bpc = b, bitmap_size = n, bitmap_data = d\<rparr>)"
    and not_rgb: "t \<noteq> OR_DATA_TYPE_PIXMAP_8RGB"
    and unmapped: "DATATYPE_TO_MIMETYPE t = None"
    and message: "diagnostic =
           ''Cannot extract thumbnail of type '' @ [CHR 0x22] @ str_DataType rt t @
           [CHR 0x22] @ '' from '' @ repr rt rawfile_path @ '' ('' @
           format_d x @ ''x'' @ format_d y @ '') '' @ ''\<newline>''"
  shows "extract_thumbnails rt eng rawfile_path destination_path open_in_browser tr =
     (Inr (),
      tr @ Call_newRawFile rawfile_path OR_RAWFILE_TYPE_UNKNOWN # Call_listThumbnailSizes #
           map Call_getThumbnail (ws1 @ w # ws2)
         @ concat (map (\<lambda>v. iteration_events rt rawfile_path destination_path open_in_browser
                               (thumbnail_of h v)) ws1)
         @ [Stderr_print diagnostic]
         @ concat (map (\<lambda>v. iteration_events rt rawfile_path destination_path open_in_browser
                               (thumbnail_of h v)) ws2))"
proof -
  have "iteration_events rt rawfile_path destination_path open_in_browser (thumbnail_of h w) =
      [Stderr_print diagnostic]"
    by (subst iteration_events_unmapped)
       (simp_all add: thumbnail_of_def thumbnail get_data_type_def get_width_def
          get_height_def not_rgb unmapped message cannot_extract_message_def)
  then show ?thesis
    by (simp add: extract_thumbnails_run [OF opened extracted writable] widths)
qed

theorem unmapped_thumbnail_skipped_with_diagnostic_witness:
  "newRawFile sample_engine ''images/sample.cr2'' OR_RAWFILE_TYPE_UNKNOWN = Some sample_handle
   \<and> handle_listThumbnailSizes sample_handle = [160, 2] @ 4 # [160]
   \<and> fst (handle_getThumbnail sample_handle 160 Thumbnail_new) = OR_ERROR_NONE
   \<and> fst (handle_getThumbnail sample_handle 2 Thumbnail_new) = OR_ERROR_NONE
   \<and> handle_getThumbnail sample_handle 4 Thumbnail_new =
        (OR_ERROR_NONE,
         \<lparr>bitmap_dataType = OR_DATA_TYPE_COMPRESSED_CFA, bitmap_x = 4, bitmap_y = 3,
          bitmap_bpc = 8, bitmap_size = 3, bitmap_data = ''cfa''\<rparr>)
   \<and> (\<forall>q. open_wb sample_runtime q)
   \<and> OR_DATA_TYPE_COMPRESSED_CFA \<noteq> OR_DATA_TYPE_PIXMAP_8RGB
   \<and> DATATYPE_TO_MIMETYPE OR_DATA_TYPE_COMPRESSED_CFA = None
   \<and> extract_thumbnails sample_runtime sample_engine ''images/sample.cr2'' ''out'' False [] =
       (Inr (),
        [Call_newRawFile ''images/sample.cr2'' OR_RAWFILE_TYPE_UNKNOWN,
         Call_listThumbnailSizes,
         Call_getThumbnail 160, Call_getThumbnail 2, Call_getThumbnail 4,
         Call_getThumbnail 160,
         File_open ''/home/user/out/sample-160x120.jpg'',
         File_write ''/home/user/out/sample-160x120.jpg''
           [CHR 0xFF, CHR 0xD8, CHR 0xFF, CHR 0xD9],
         File_close ''/home/user/out/sample-160x120.jpg'',
         File_open ''/home/user/out/sample-2x2.ppm'',
         File_write ''/home/user/out/sample-2x2.ppm''
           ''P6\<newline>2 2\<newline>255\<newline>rgbRGBrgbRGB'',
         File_close ''/home/user/out/sample-2x2.ppm'',
         Stderr_print (''Cannot extract thumbnail of type '' @ [CHR 0x22] @
           ''OR_DATA_TYPE_COMPRESSED_CFA'' @ [CHR 0x22] @ '' from '' @ [CHR 0x27] @
           ''images/sample.cr2'' @ [CHR 0x27] @ '' (4x3) '' @ ''\<newline>''),
         File_open ''/home/user/out/sample-160x120.jpg'',
         File_write ''/home/user/out/sample-160x120.jpg''
           [CHR 0xFF, CHR 0xD8, CHR 0xFF, CHR 0xD9],
         File_close ''/home/user/out/sample-160x120.jpg''])"
proof -
  have unmapped: "DATATYPE_TO_MIMETYPE OR_DATA_TYPE_COMPRESSED_CFA = None"
    by (simp add: DATATYPE_TO_MIMETYPE_def)
  have not_rgb: "OR_DATA_TYPE_COMPRESSED_CFA \<noteq> OR_DATA_TYPE_PIXMAP_8RGB"
    by simp
  note run = unmapped_thumbnail_skipped_with_diagnostic
    [OF sample_opened sample_extracted sample_writable sample_split_4 sample_thumbnail_4
        not_rgb unmapped refl,
     where destination_path = "''out''" and open_in_browser = False and tr = "[]"]
  have "extract_thumbnails sample_runtime sample_engine ''images/sample.cr2'' ''out'' False [] =
       (Inr (),
        [Call_newRawFile ''images/sample.cr2'' OR_RAWFILE_TYPE_UNKNOWN,
         Call_listThumbnailSizes,
         Call_getThumbnail 160, Call_getThumbnail 2, Call_getThumbnail 4,
         Call_getThumbnail 160,
         File_open ''/home/user/out/sample-160x120.jpg'',
         File_write ''/home/user/out/sample-160x120.jpg''
           [CHR 0xFF, CHR 0xD8, CHR 0xFF, CHR 0xD9],
         File_close ''/home/user/out/sample-160x120.jpg'',
         File_open ''/home/user/out/sample-2x2.ppm'',
         File_write ''/home/user/out/sample-2x2.ppm''
           ''P6\<newline>2 2\<newline>255\<newline>rgbRGBrgbRGB'',
         File_close ''/home/user/out/sample-2x2.ppm'',
         Stderr_print (''Cannot extract thumbnail of type '' @ [CHR 0x22] @
           ''OR_DATA_TYPE_COMPRESSED_CFA'' @ [CHR 0x22] @ '' from '' @ [CHR 0x27] @
           ''images/sample.cr2'' @ [CHR 0x27] @ '' (4x3) '' @ ''\<newline>''),
         File_open ''/home/user/out/sample-160x120.jpg'',
         File_write ''/home/user/out/sample-160x120.jpg''
           [CHR 0xFF, CHR 0xD8, CHR 0xFF, CHR 0xD9],
         File_close ''/home/user/out/sample-160x120.jpg''])"
    by (simp add: run sample_events_160 sample_events_2 sample_texts sample_digits)
  then show ?thesis
    using sample_opened sample_split_4 sample_thumbnail_2 sample_thumbnail_160
      sample_thumbnail_4 sample_writable unmapped
    by simp
qed

section \<open>The decimal conversion is faithful\<close>

lemma digit_value_digit_char: "n < 10 \<Longrightarrow> digit_value (digit_char n) = n"
proof -
  assume "n < 10"
  then have "n \<in> {0, 1, 2, 3, 4, 5, 6, 7, 8, 9}" by auto
  then show ?thesis
    by (auto simp: digit_value_def digit_char_def)
qed

lemma parse_d_snoc: "parse_d (s @ [c]) = 10 * parse_d s + digit_value c"
  by (simp add: parse_d_def)

lemma parse_d_format_d: "parse_d (format_d n) = n"
proof (induction n rule: format_d.induct)
  case (1 n)
  show ?case
  proof (cases "n < 10")
    case True
    then show ?thesis
      by (simp add: format_d.simps [of n] parse_d_def digit_value_digit_char)
  next
    case False
    with 1 have "parse_d (format_d (n div 10)) = n div 10" by simp
    with False show ?thesis
      by (simp add: format_d.simps [of n] parse_d_snoc digit_value_digit_char)
  qed
qed

lemma format_d_inj: "format_d m = format_d n \<Longrightarrow> m = n"
  by (metis parse_d_format_d)

text \<open>
  The two export scenarios of the spec: raw data of 3944 by 2622 samples of 14 bits, and
  a packed RGB thumbnail of 160 by 120 extracted from \<^verbatim>\<open>duck.cr2\<close>.
\<close>

lemma raw_export_digits:
  "format_d 3944 = ''3944''" "format_d 2622 = ''2622''" "format_d 16383 = ''16383''"
  by (simp_all add: format_d.simps digit_char_def)

lemma raw_export_header:
  "''P5\<newline>'' @ format_d 3944 @ '' '' @ format_d 2622 @ ''\<newline>'' @
   format_d (2 ^ 14 - 1) @ ''\<newline>'' = ''P5\<newline>3944 2622\<newline>16383\<newline>''"
  by (simp add: raw_export_digits)


lemma thumbnail_export_name:
  "fst (os_path_splitext sample_runtime (os_path_basename sample_runtime ''duck.cr2'')) @
   ''-'' @ format_d 160 @ ''x'' @ format_d 120 @ ''.ppm'' = ''duck-160x120.ppm''"
  by (simp add: sample_runtime_defs sample_digits Let_def)

lemma thumbnail_export_header:
  "write_rgb8pixmap_to_stream
     (Bitmap \<lparr>bitmap_dataType = OR_DATA_TYPE_PIXMAP_8RGB, bitmap_x = 160, bitmap_y = 120,
              bitmap_bpc = 8, bitmap_size = length d, bitmap_data = d\<rparr>) []
   = ''P6\<newline>160 120\<newline>255\<newline>'' @ d"
  by (simp add: write_rgb8pixmap_to_stream_def get_width_def get_height_def get_data_def
        sample_digits)

section \<open>The byte length of a bitmap\<close>









end
